theory Spec2Isabelle
  imports Main
begin

section \<open>The placeholder image generator of scripts/create-demo-images.py\<close>

text \<open>
  The script paints fourteen mock screenshots with PIL and writes them as PNG files.
  Its own code is a font fallback chain, a fixed sequence of drawing calls, a
  directory-creation call, a save call and a loop over a literal list. Everything
  else is the Python library and the operating system: they are modelled here as an
  environment record (what is installed and what the system refuses) and a world
  record (the file tree, standard output, and a log of the library calls made).

  Python strings are \<^typ>\<open>string\<close>; a character outside ASCII is written as the
  bytes of its UTF-8 encoding. The script never indexes or measures a string itself:
  it only searches paths for the separator, which UTF-8 preserves.
\<close>

subsection \<open>Exceptions\<close>

datatype exn =
    FileNotFoundError | FileExistsError | NotADirectoryError | IsADirectoryError
  | PermissionError | OSError
  | ValueError | ImportError | MemoryError
  | KeyboardInterrupt | SystemExit

text \<open>\<open>except OSError\<close> catches the class and its subclasses.\<close>

fun is_OSError :: "exn \<Rightarrow> bool" where
  "is_OSError FileNotFoundError = True"
| "is_OSError FileExistsError = True"
| "is_OSError NotADirectoryError = True"
| "is_OSError IsADirectoryError = True"
| "is_OSError PermissionError = True"
| "is_OSError OSError = True"
| "is_OSError _ = False"

subsection \<open>Fonts, images and files\<close>

datatype font =
    FreeTypeFont string int   \<comment> \<open>file name and point size given to \<open>ImageFont.truetype\<close>\<close>
  | DefaultFont               \<comment> \<open>the font built into PIL\<close>

datatype draw_op =
    Rectangle "int list" "string option" "string option" int
      \<comment> \<open>\<open>draw.rectangle(xy, fill, outline, width)\<close>\<close>
  | Text "int \<times> int" string string font
      \<comment> \<open>\<open>draw.text(xy, text, fill, font)\<close>\<close>

record image =
  mode :: string
  img_size :: "int \<times> int"
  color :: string
  drawn :: "draw_op list"

datatype content =
    Encoded string image   \<comment> \<open>an image written by \<open>Image.save\<close> in the named format\<close>
  | Bytes "nat list"       \<comment> \<open>any other file\<close>

datatype node = Dir | File content

text \<open>
  A path is resolved to its components, relative to the root when the flag is set and
  to the working directory otherwise. Empty and \<open>.\<close> components are dropped;
  \<open>..\<close> and symbolic links are not interpreted.
\<close>

type_synonym path = "bool \<times> string list"

datatype call =
    Truetype string int
  | Load_default
  | Makedirs string bool
  | Save string string

record world =
  nodes :: "path \<rightharpoonup> node"
  stdout :: "string list"
  calls :: "call list"

record env =
  font_error :: "string \<Rightarrow> int \<Rightarrow> exn option"
    \<comment> \<open>what \<open>ImageFont.truetype(name, size)\<close> raises on this machine, if anything\<close>
  getbbox :: "font \<Rightarrow> string \<Rightarrow> int \<times> int \<times> int \<times> int"
    \<comment> \<open>the font's metrics: the bounding box of a text drawn at the origin\<close>
  mkdir_error :: "path \<Rightarrow> exn option"
    \<comment> \<open>what the system raises when asked to create this directory, if it refuses\<close>
  write_error :: "path \<Rightarrow> exn option"
    \<comment> \<open>what the system raises when asked to write this file, if it refuses\<close>

subsection \<open>Actions that may raise\<close>

type_synonym 'a action = "world \<Rightarrow> (exn + 'a) \<times> world"

definition return :: "'a \<Rightarrow> 'a action" where
  "return x w = (Inr x, w)"

definition bind :: "'a action \<Rightarrow> ('a \<Rightarrow> 'b action) \<Rightarrow> 'b action" where
  "bind m f w = (case m w of (Inl e, w1) \<Rightarrow> (Inl e, w1) | (Inr x, w1) \<Rightarrow> f x w1)"

text \<open>
  \<open>try: body except C: handler\<close>. The handler runs, with the exception at hand, when
  the body raises an exception of a class that \<open>catches\<close> accepts; a bare
  \<open>except:\<close> accepts every exception.
\<close>

definition try_except ::
  "'a action \<Rightarrow> (exn \<Rightarrow> bool) \<Rightarrow> (exn \<Rightarrow> 'a action) \<Rightarrow> 'a action" where
  "try_except body catches handler w =
     (case body w of
        (Inl e, w1) \<Rightarrow> if catches e then handler e w1 else (Inl e, w1)
      | (Inr x, w1) \<Rightarrow> (Inr x, w1))"

definition bare :: "exn \<Rightarrow> bool" where
  "bare e = True"

definition logged :: "call \<Rightarrow> world \<Rightarrow> world" where
  "logged c w = w\<lparr>calls := calls w @ [c]\<rparr>"

subsection \<open>Configuration\<close>

definition SCREENSHOTS_DIR :: string where "SCREENSHOTS_DIR = ''docs/screenshots''"
definition WIDTH :: int where "WIDTH = 1200"
definition HEIGHT :: int where "HEIGHT = 800"
definition FONT_SIZE :: int where "FONT_SIZE = 24"

subsection \<open>Font loading\<close>

text \<open>
  \<open>ImageFont.truetype\<close> raises when the font cannot be loaded and returns a handle
  for the file at the size otherwise. \<open>ImageFont.load_default\<close> returns the font
  shipped inside the library; its documentation declares no exception.
\<close>

definition truetype :: "env \<Rightarrow> string \<Rightarrow> int \<Rightarrow> font action" where
  "truetype env name sz w =
     (case font_error env name sz of
        Some e \<Rightarrow> (Inl e, logged (Truetype name sz) w)
      | None \<Rightarrow> (Inr (FreeTypeFont name sz), logged (Truetype name sz) w))"

definition load_default :: "font action" where
  "load_default w = (Inr DefaultFont, logged Load_default w)"

definition helvetica :: string where
  "helvetica = ''/System/Library/Fonts/Helvetica.ttc''"

definition arial :: string where
  "arial = ''arial.ttf''"

text \<open>Lines 24 to 33: the two nested \<open>try\<close> statements, both with a bare \<open>except:\<close>.\<close>

definition load_fonts :: "env \<Rightarrow> (font \<times> font) action" where
  "load_fonts env =
     try_except
       (bind (truetype env helvetica (FONT_SIZE + 8)) (\<lambda>font_title.
        bind (truetype env helvetica (FONT_SIZE - 4)) (\<lambda>font_desc.
        return (font_title, font_desc))))
       bare
       (\<lambda>_. try_except
          (bind (truetype env arial (FONT_SIZE + 8)) (\<lambda>font_title.
           bind (truetype env arial (FONT_SIZE - 4)) (\<lambda>font_desc.
           return (font_title, font_desc))))
          bare
          (\<lambda>_. bind load_default (\<lambda>font_title.
           bind load_default (\<lambda>font_desc.
           return (font_title, font_desc)))))"

subsection \<open>Paths and the file tree\<close>

abbreviation sep :: char where
  "sep \<equiv> CHR ''/''"

text \<open>
  \<open>os.path.dirname\<close>: the text before the last separator, without the separators that
  end it unless it consists of separators only.
\<close>

definition rstrip_sep :: "string \<Rightarrow> string" where
  "rstrip_sep s = rev (dropWhile (\<lambda>c. c = sep) (rev s))"

definition dirname :: "string \<Rightarrow> string" where
  "dirname p =
     (let head = rev (dropWhile (\<lambda>c. c \<noteq> sep) (rev p))
      in if head \<noteq> [] \<and> head \<noteq> replicate (length head) sep then rstrip_sep head else head)"

fun split_sep :: "string \<Rightarrow> string list" where
  "split_sep [] = [[]]"
| "split_sep (c # cs) =
     (if c = sep then [] # split_sep cs
      else (case split_sep cs of [] \<Rightarrow> [[c]] | x # xs \<Rightarrow> (c # x) # xs))"

text \<open>The system finds no file under the empty path.\<close>

definition resolve :: "string \<Rightarrow> path option" where
  "resolve p =
     (if p = [] then None
      else Some (hd p = sep, filter (\<lambda>c. c \<noteq> [] \<and> c \<noteq> ''.'') (split_sep p)))"

text \<open>The root and the working directory always exist.\<close>

definition node_at :: "world \<Rightarrow> path \<Rightarrow> node option" where
  "node_at w q = (if snd q = [] then Some Dir else nodes w q)"


definition file_at :: "world \<Rightarrow> string \<Rightarrow> content option" where
  "file_at w p =
     (case resolve p of
        None \<Rightarrow> None
      | Some q \<Rightarrow> (case node_at w q of Some (File c) \<Rightarrow> Some c | _ \<Rightarrow> None))"

text \<open>
  \<open>os.mkdir\<close> on a resolved path: the name must be free and its parent a directory,
  and the system may still refuse.
\<close>

definition mkdir :: "env \<Rightarrow> path \<Rightarrow> unit action" where
  "mkdir env q w =
     (if node_at w q \<noteq> None then (Inl FileExistsError, w)
      else (case node_at w (fst q, butlast (snd q)) of
              None \<Rightarrow> (Inl FileNotFoundError, w)
            | Some (File c) \<Rightarrow> (Inl NotADirectoryError, w)
            | Some Dir \<Rightarrow>
                (case mkdir_error env q of
                   Some e \<Rightarrow> (Inl e, w)
                 | None \<Rightarrow> (Inr (), w\<lparr>nodes := (nodes w)(q \<mapsto> Dir)\<rparr>))))"

text \<open>
  \<open>os.makedirs(name, exist_ok)\<close>, after the library's code, on the resolved
  components (the leaf first): create the parent when it is missing, tolerating that it
  exists by then; then create the leaf, and with \<open>exist_ok\<close> tolerate any
  \<open>OSError\<close> when the leaf is a directory.
\<close>

definition mkdir_leaf :: "env \<Rightarrow> bool \<Rightarrow> path \<Rightarrow> unit action" where
  "mkdir_leaf env exist_ok q =
     try_except (mkdir env q) is_OSError
       (\<lambda>e w. if \<not> exist_ok \<or> node_at w q \<noteq> Some Dir then (Inl e, w) else (Inr (), w))"

fun makedirs_at :: "env \<Rightarrow> bool \<Rightarrow> bool \<Rightarrow> string list \<Rightarrow> unit action" where
  "makedirs_at env exist_ok a [] w = mkdir_leaf env exist_ok (a, []) w"
| "makedirs_at env exist_ok a (tail # rhead) w =
     (case (if rhead \<noteq> [] \<and> node_at w (a, rev rhead) = None
            then (case makedirs_at env exist_ok a rhead w of
                    (Inl e, w1) \<Rightarrow> if e = FileExistsError then (Inr (), w1) else (Inl e, w1)
                  | (Inr u, w1) \<Rightarrow> (Inr u, w1))
            else (Inr (), w)) of
        (Inl e, w1) \<Rightarrow> (Inl e, w1)
      | (Inr u, w1) \<Rightarrow> mkdir_leaf env exist_ok (a, rev (tail # rhead)) w1)"

definition makedirs :: "env \<Rightarrow> string \<Rightarrow> bool \<Rightarrow> unit action" where
  "makedirs env name exist_ok w =
     (case resolve name of
        None \<Rightarrow> (Inl FileNotFoundError, logged (Makedirs name exist_ok) w)
      | Some q \<Rightarrow>
          makedirs_at env exist_ok (fst q) (rev (snd q)) (logged (Makedirs name exist_ok) w))"

text \<open>
  \<open>img.save(filename, format)\<close> opens the file for writing, which needs its directory
  to exist and the name not to be a directory, and replaces whatever file was there.
\<close>

definition save :: "env \<Rightarrow> image \<Rightarrow> string \<Rightarrow> string \<Rightarrow> unit action" where
  "save env img filename fmt w0 =
     (let w = logged (Save filename fmt) w0 in
      case resolve filename of
        None \<Rightarrow> (Inl FileNotFoundError, w)
      | Some q \<Rightarrow>
          if snd q = [] then (Inl IsADirectoryError, w)
          else (case node_at w (fst q, butlast (snd q)) of
                  None \<Rightarrow> (Inl FileNotFoundError, w)
                | Some (File c) \<Rightarrow> (Inl NotADirectoryError, w)
                | Some Dir \<Rightarrow>
                    if node_at w q = Some Dir then (Inl IsADirectoryError, w)
                    else (case write_error env q of
                            Some e \<Rightarrow> (Inl e, w)
                          | None \<Rightarrow>
                              (Inr (), w\<lparr>nodes := (nodes w)(q \<mapsto> File (Encoded fmt img))\<rparr>))))"

text \<open>Standard output takes every line.\<close>

definition print :: "string \<Rightarrow> unit action" where
  "print line w = (Inr (), w\<lparr>stdout := stdout w @ [line]\<rparr>)"

subsection \<open>Drawing\<close>

text \<open>
  An image is kept as what it was allocated with and the drawing calls made on it, in
  order. Drawing on the image in memory and measuring a text do not raise.
\<close>

definition Image_new :: "string \<Rightarrow> int \<times> int \<Rightarrow> string \<Rightarrow> image" where
  "Image_new m sz c = \<lparr>mode = m, img_size = sz, color = c, drawn = []\<rparr>"

definition draw_rectangle ::
  "int list \<Rightarrow> string option \<Rightarrow> string option \<Rightarrow> int \<Rightarrow> image \<Rightarrow> image" where
  "draw_rectangle xy fill outline width img =
     img\<lparr>drawn := drawn img @ [Rectangle xy fill outline width]\<rparr>"

definition draw_text :: "int \<times> int \<Rightarrow> string \<Rightarrow> string \<Rightarrow> font \<Rightarrow> image \<Rightarrow> image" where
  "draw_text xy s fill f img = img\<lparr>drawn := drawn img @ [Text xy s fill f]\<rparr>"

text \<open>\<open>draw.textbbox(xy, text, font)\<close>: the font's box for the text, moved to \<open>xy\<close>.\<close>

definition draw_textbbox ::
  "env \<Rightarrow> int \<times> int \<Rightarrow> string \<Rightarrow> font \<Rightarrow> int \<times> int \<times> int \<times> int" where
  "draw_textbbox env xy s f =
     (case getbbox env f s of
        (l, t, r, b) \<Rightarrow> (l + fst xy, t + snd xy, r + fst xy, b + snd xy))"

text \<open>
  Lines 44 to 46 and 50 to 52: the width of a text is the right edge of its box minus
  the left edge, and the text is drawn at half of what the width leaves of the canvas
  (Python's \<open>//\<close> rounds down, as \<open>div\<close> on \<^typ>\<open>int\<close> does).
\<close>

definition text_width :: "env \<Rightarrow> string \<Rightarrow> font \<Rightarrow> int" where
  "text_width env s f = (case draw_textbbox env (0, 0) s f of (x0, y0, x1, y1) \<Rightarrow> x1 - x0)"

definition centered_x :: "env \<Rightarrow> string \<Rightarrow> font \<Rightarrow> int" where
  "centered_x env s f = (WIDTH - text_width env s f) div 2"

definition footer :: string where
  "footer = [CHR 0xC2, CHR 0xA9] @ '' 2024 ClockPilot''"

text \<open>Lines 35 to 71: the drawing calls, in order.\<close>

definition paint :: "env \<Rightarrow> string \<Rightarrow> string \<Rightarrow> font \<Rightarrow> font \<Rightarrow> image \<Rightarrow> image" where
  "paint env title description font_title font_desc img0 =
     (let bg_gradient = ''#3b82f6'';
          text_color = ''#1f2937'';
          accent_color = ''#ef4444'';
          img = draw_rectangle [0, 0, WIDTH, 100] (Some bg_gradient) None 1 img0;
          title_x = centered_x env title font_title;
          img = draw_text (title_x, 30) title ''white'' font_title img;
          desc_x = centered_x env description font_desc;
          img = draw_text (desc_x, 200) description text_color font_desc img;
          img = draw_rectangle [50, 150, WIDTH - 50, 180] None (Some ''#e5e7eb'') 2 img;
          img = draw_rectangle [100, 250, WIDTH - 100, HEIGHT - 100] None (Some ''#e5e7eb'') 2 img;
          img = draw_rectangle [120, 270, 250, 310] (Some accent_color) None 1 img;
          img = draw_text (135, 285) ''Action'' ''white'' font_desc img;
          img = draw_text (120, 350) ''Interface ClockPilot'' text_color font_desc img;
          img = draw_text (120, 380) ''Gestion des temps et planning'' ''#6b7280'' font_desc img;
          img = draw_text (50, HEIGHT - 50) footer ''#9ca3af'' font_desc img
      in img)"

subsection \<open>The generator and the batch driver\<close>

definition confirmation :: "string \<Rightarrow> string" where
  "confirmation filename =
     [CHR 0xE2, CHR 0x9C, CHR 0x85] @ '' Image cr'' @ [CHR 0xC3, CHR 0xA9, CHR 0xC3, CHR 0xA9]
       @ ''e: '' @ filename"

definition create_placeholder_image :: "env \<Rightarrow> string \<Rightarrow> string \<Rightarrow> string \<Rightarrow> unit action" where
  "create_placeholder_image env title description filename =
     (let img = Image_new ''RGB'' (WIDTH, HEIGHT) ''#f8fafc'' in
      bind (load_fonts env) (\<lambda>(font_title, font_desc).
      let img = paint env title description font_title font_desc img in
      bind (makedirs env (dirname filename) True) (\<lambda>_.
      bind (save env img filename ''PNG'') (\<lambda>_.
      print (confirmation filename)))))"

definition images :: "(string \<times> string \<times> string) list" where
  "images = [
    (''docs/screenshots/login/login-page.png'',
     ''Page de Connexion'',
     ''Saisissez vos identifiants pour acc'' @ [CHR 0xC3, CHR 0xA9] @ ''der '' @ [CHR 0xC3, CHR 0xA0] @ '' ClockPilot''),
    (''docs/screenshots/login/login-error.png'',
     ''Erreur de Connexion'',
     ''Identifiants incorrects - V'' @ [CHR 0xC3, CHR 0xA9] @ ''rifiez votre email et mot de passe''),
    (''docs/screenshots/login/login-success.png'',
     ''Connexion R'' @ [CHR 0xC3, CHR 0xA9] @ ''ussie'',
     ''Redirection vers votre tableau de bord...''),
    (''docs/screenshots/employee/dashboard.png'',
     ''Tableau de Bord Employ'' @ [CHR 0xC3, CHR 0xA9],
     ''Vue d'ensemble de votre activit'' @ [CHR 0xC3, CHR 0xA9] @ '' et planning''),
    (''docs/screenshots/employee/planning-month.png'',
     ''Planning Mensuel'',
     ''Consultez votre planning sur un mois complet''),
    (''docs/screenshots/employee/time-tracking.png'',
     ''Pointage Temps R'' @ [CHR 0xC3, CHR 0xA9] @ ''el'',
     ''Enregistrez vos heures de travail en temps r'' @ [CHR 0xC3, CHR 0xA9] @ ''el''),
    (''docs/screenshots/employee/manual-entry.png'',
     ''Saisie Manuelle'',
     ''Ajoutez des heures de travail manuellement''),
    (''docs/screenshots/employee/reports.png'',
     ''Rapports Personnels'',
     ''Analysez vos statistiques de travail''),
    (''docs/screenshots/employee/profile.png'',
     ''Profil Utilisateur'',
     ''G'' @ [CHR 0xC3, CHR 0xA9] @ ''rez vos informations personnelles et pr'' @ [CHR 0xC3, CHR 0xA9] @ ''f'' @ [CHR 0xC3, CHR 0xA9] @ ''rences''),
    (''docs/screenshots/admin/dashboard.png'',
     ''Tableau de Bord Admin'',
     ''Vue d'ensemble de l'activit'' @ [CHR 0xC3, CHR 0xA9] @ '' de l'entreprise''),
    (''docs/screenshots/admin/employees-list.png'',
     ''Gestion des Employ'' @ [CHR 0xC3, CHR 0xA9] @ ''s'',
     ''Consultez et administrez votre '' @ [CHR 0xC3, CHR 0xA9] @ ''quipe''),
    (''docs/screenshots/admin/employee-create.png'',
     ''Cr'' @ [CHR 0xC3, CHR 0xA9] @ ''ation d'Employ'' @ [CHR 0xC3, CHR 0xA9],
     ''Ajoutez un nouveau membre '' @ [CHR 0xC3, CHR 0xA0] @ '' l'' @ [CHR 0x27, CHR 0xC3, CHR 0xA9] @ ''quipe''),
    (''docs/screenshots/admin/validation.png'',
     ''Validation des Heures'',
     ''Approuvez ou rejetez les heures saisies''),
    (''docs/screenshots/admin/export-dialog.png'',
     ''Export de Donn'' @ [CHR 0xC3, CHR 0xA9] @ ''es'',
     ''G'' @ [CHR 0xC3, CHR 0xA9] @ ''n'' @ [CHR 0xC3, CHR 0xA9] @ ''rez des rapports personnalis'' @ [CHR 0xC3, CHR 0xA9] @ ''s'')]"

definition start_banner :: string where
  "start_banner =
     [CHR 0xF0, CHR 0x9F, CHR 0x96, CHR 0xBC, CHR 0xEF, CHR 0xB8, CHR 0x8F] @ ''  Cr''
       @ [CHR 0xC3, CHR 0xA9] @ ''ation des images placeholder pour la documentation...''"

definition end_banner :: string where
  "end_banner =
     [CHR 0xE2, CHR 0x9C, CHR 0x85] @ '' Toutes les images placeholder ont '' @ [CHR 0xC3, CHR 0xA9]
       @ ''t'' @ [CHR 0xC3, CHR 0xA9] @ '' cr'' @ [CHR 0xC3, CHR 0xA9, CHR 0xC3, CHR 0xA9] @ ''es!''"

text \<open>The \<open>for\<close> loop of lines 105 and 106: an exception leaves the loop.\<close>

fun for_images :: "env \<Rightarrow> (string \<times> string \<times> string) list \<Rightarrow> unit action" where
  "for_images env [] w = (Inr (), w)"
| "for_images env ((filename, title, description) # rest) w =
     (case create_placeholder_image env title description filename w of
        (Inl e, w1) \<Rightarrow> (Inl e, w1)
      | (Inr u, w1) \<Rightarrow> for_images env rest w1)"

definition create_all_placeholders :: "env \<Rightarrow> unit action" where
  "create_all_placeholders env =
     bind (print start_banner) (\<lambda>_.
     bind (for_images env images) (\<lambda>_.
     print end_banner))"

section \<open>Notions the properties are stated with\<close>

subsection \<open>Observing a run\<close>

text \<open>The library calls a run added to the log, and the files it asked to save.\<close>

definition new_calls :: "world \<Rightarrow> world \<Rightarrow> call list" where
  "new_calls w w' = drop (length (calls w)) (calls w')"


text \<open>
  One call of a directory function only adds directories where nothing was, and
  touches neither the output nor the log.
\<close>

definition grows :: "world \<Rightarrow> world \<Rightarrow> bool" where
  "grows w w' \<longleftrightarrow>
     stdout w' = stdout w \<and> calls w' = calls w \<and>
     (\<forall>q. nodes w' q = nodes w q \<or> (nodes w q = None \<and> nodes w' q = Some Dir))"

text \<open>
  The directory of the path (given leaf first) exists, and so does every directory
  above it.
\<close>

fun dirs_exist :: "world \<Rightarrow> bool \<Rightarrow> string list \<Rightarrow> bool" where
  "dirs_exist w a [] = True"
| "dirs_exist w a (c # rest) = (nodes w (a, rev (c # rest)) = Some Dir \<and> dirs_exist w a rest)"

text \<open>
  No file stands where a directory of the path (given leaf first) is wanted.
\<close>

fun clear_above :: "world \<Rightarrow> bool \<Rightarrow> string list \<Rightarrow> bool" where
  "clear_above w a [] = True"
| "clear_above w a (c # rest) =
     ((case nodes w (a, rev (c # rest)) of Some (File f) \<Rightarrow> False | _ \<Rightarrow> True)
      \<and> clear_above w a rest)"

subsection \<open>The fallback chain as the specification words it\<close>

text \<open>
  A font name loads when both of its sizes load. Trying a name asks for the title size,
  and for the description size only when the title size loaded. The chain: the
  preferred system font if it loads, else the generic name if it loads, else the
  built-in font; \<open>three_tiers\<close> gives the fonts and the calls made on the way.
\<close>

definition loads :: "env \<Rightarrow> string \<Rightarrow> bool" where
  "loads env name \<longleftrightarrow>
     font_error env name (FONT_SIZE + 8) = None \<and> font_error env name (FONT_SIZE - 4) = None"

definition attempts :: "env \<Rightarrow> string \<Rightarrow> call list" where
  "attempts env name =
     Truetype name (FONT_SIZE + 8) #
       (if font_error env name (FONT_SIZE + 8) = None then [Truetype name (FONT_SIZE - 4)] else [])"

definition three_tiers :: "env \<Rightarrow> (font \<times> font) \<times> call list" where
  "three_tiers env =
     (if loads env helvetica
      then ((FreeTypeFont helvetica (FONT_SIZE + 8), FreeTypeFont helvetica (FONT_SIZE - 4)),
            attempts env helvetica)
      else if loads env arial
      then ((FreeTypeFont arial (FONT_SIZE + 8), FreeTypeFont arial (FONT_SIZE - 4)),
            attempts env helvetica @ attempts env arial)
      else ((DefaultFont, DefaultFont),
            attempts env helvetica @ attempts env arial @ [Load_default, Load_default]))"

text \<open>The image a call draws, given the fonts the chain ends with.\<close>

definition canvas :: "env \<Rightarrow> string \<Rightarrow> string \<Rightarrow> image" where
  "canvas env title description =
     paint env title description (fst (fst (three_tiers env))) (snd (fst (three_tiers env)))
       (Image_new ''RGB'' (WIDTH, HEIGHT) ''#f8fafc'')"

text \<open>The library calls of one run of the generator that gets as far as the save.\<close>

definition run_calls :: "env \<Rightarrow> string \<Rightarrow> call list" where
  "run_calls env filename =
     snd (three_tiers env) @ [Makedirs (dirname filename) True, Save filename ''PNG'']"

text \<open>A file that is a PNG of an RGB image of 1200 by 800 on the light background.\<close>

fun is_screenshot :: "content \<Rightarrow> bool" where
  "is_screenshot (Encoded fmt img) \<longleftrightarrow>
     fmt = ''PNG'' \<and> mode img = ''RGB'' \<and> img_size img = (1200, 800) \<and> color img = ''#f8fafc''"
| "is_screenshot (Bytes b) \<longleftrightarrow> False"

definition holds_screenshot :: "world \<Rightarrow> string \<Rightarrow> bool" where
  "holds_screenshot w p = (case file_at w p of Some c \<Rightarrow> is_screenshot c | None \<Rightarrow> False)"

subsection \<open>Concrete machines and inputs\<close>

text \<open>
  A machine with neither font file, where the system refuses nothing; texts are
  measured as the built-in bitmap font does, six pixels a character. A machine where
  every font file loads. A machine where loading fails with exceptions that are no
  \<open>OSError\<close>. A machine that refuses to create the directory of the employee
  screenshots. An empty working directory, and one that holds a \<open>docs\<close> directory.
\<close>

definition no_fonts :: env where
  "no_fonts =
     \<lparr>font_error = (\<lambda>name sz. Some OSError),
      getbbox = (\<lambda>f s. (0, 0, 6 * int (length s), 11)),
      mkdir_error = (\<lambda>q. None),
      write_error = (\<lambda>q. None)\<rparr>"

definition all_fonts :: env where
  "all_fonts = no_fonts\<lparr>font_error := (\<lambda>name sz. None)\<rparr>"

definition odd_fonts :: env where
  "odd_fonts =
     no_fonts\<lparr>font_error :=
       (\<lambda>name sz. if name = helvetica then Some KeyboardInterrupt else Some ValueError)\<rparr>"

definition read_only :: env where
  "read_only =
     no_fonts\<lparr>mkdir_error :=
       (\<lambda>q. if q = (False, [''docs'', ''screenshots'', ''employee''])
            then Some PermissionError else None)\<rparr>"

definition empty_world :: world where
  "empty_world = \<lparr>nodes = Map.empty, stdout = [], calls = []\<rparr>"


definition long_title :: string where
  "long_title = replicate 400 CHR ''W''"

section \<open>Properties of the model\<close>

subsection \<open>Font loading\<close>

lemmas action_defs = try_except_def bind_def return_def logged_def

lemma load_fonts_eq:
  "load_fonts env w = (Inr (fst (three_tiers env)), w\<lparr>calls := calls w @ snd (three_tiers env)\<rparr>)"
  by (simp add: load_fonts_def action_defs truetype_def load_default_def bare_def
      three_tiers_def loads_def attempts_def split: option.splits)

lemma node_at_frame [simp]:
  "node_at (w\<lparr>calls := cs\<rparr>) q = node_at w q" "node_at (w\<lparr>stdout := out\<rparr>) q = node_at w q"
  by (simp_all add: node_at_def)

subsection \<open>The path functions on examples\<close>

text \<open>The values the library gives on the same arguments.\<close>

lemma dirname_examples:
  "dirname ''docs/screenshots/login/login-page.png'' = ''docs/screenshots/login''"
  "dirname ''image.png'' = []"
  "dirname ''/a'' = ''/''"
  "dirname ''//a'' = ''//''"
  "dirname ''a//b'' = ''a''"
  "dirname ''a/b/'' = ''a/b''"
  by code_simp+

lemma makedirs_examples:
  "fst (makedirs no_fonts [] True empty_world) = Inl FileNotFoundError"
  "fst (makedirs no_fonts ''.'' True empty_world) = Inr ()"
  "fst (makedirs no_fonts ''.'' False empty_world) = Inl FileExistsError"
  "fst (makedirs no_fonts ''a/b/c'' True empty_world) = Inr ()"
  "fst (makedirs no_fonts ''a/b/c'' True (snd (makedirs no_fonts ''a/b/c'' True empty_world)))
     = Inr ()"
  "fst (makedirs no_fonts ''a/b/c'' False (snd (makedirs no_fonts ''a/b/c'' True empty_world)))
     = Inl FileExistsError"
  by code_simp+

subsection \<open>mkdir and makedirs\<close>

lemma mkdir_cases:
  assumes "mkdir env q w = (r, w')"
  shows "(r = Inr () \<and> w' = w\<lparr>nodes := (nodes w)(q \<mapsto> Dir)\<rparr> \<and> node_at w q = None
            \<and> node_at w (fst q, butlast (snd q)) = Some Dir \<and> mkdir_error env q = None)
         \<or> (\<exists>e. r = Inl e \<and> w' = w)"
  using assms by (auto simp: mkdir_def split: if_splits option.splits node.splits)

lemma node_at_None: "node_at w q = None \<Longrightarrow> snd q \<noteq> [] \<and> nodes w q = None"
  by (auto simp: node_at_def split: if_splits)

lemma node_at_upd:
  "node_at (w\<lparr>nodes := (nodes w)(q \<mapsto> n)\<rparr>) p =
     (if snd p = [] then Some Dir else if p = q then Some n else node_at w p)"
  by (simp add: node_at_def)

lemma grows_refl [simp]: "grows w w"
  by (simp add: grows_def)

lemma grows_trans: "grows w w1 \<Longrightarrow> grows w1 w2 \<Longrightarrow> grows w w2"
  unfolding grows_def by (metis option.distinct(1))

lemma mkdir_grows: "mkdir env q w = (r, w') \<Longrightarrow> grows w w'"
  by (drule mkdir_cases) (auto simp: grows_def dest: node_at_None split: if_splits)

lemma mkdir_leaf_cases:
  assumes "mkdir_leaf env ok q w = (r, w')"
  shows "grows w w' \<and> (r = Inr () \<longrightarrow> node_at w' q = Some Dir)"
proof (cases "mkdir env q w")
  case (Pair r0 w0)
  from mkdir_cases [OF Pair] mkdir_grows [OF Pair] assms Pair show ?thesis
    by (auto simp: mkdir_leaf_def try_except_def node_at_upd split: if_splits)
qed

lemma makedirs_at_grows:
  "makedirs_at env ok a rcs w = (r, w') \<Longrightarrow> grows w w'"
proof (induction rcs arbitrary: w r w')
  case Nil
  then show ?case by (auto dest: mkdir_leaf_cases)
next
  case (Cons tail rhead)
  show ?case
  proof (cases "rhead \<noteq> [] \<and> node_at w (a, rev rhead) = None")
    case True
    obtain r1 w1 where rec: "makedirs_at env ok a rhead w = (r1, w1)" by force
    from Cons.IH [OF rec] have g1: "grows w w1" .
    from Cons.prems True rec
    have "(r, w') = (Inl (projl r1), w1) \<or> mkdir_leaf env ok (a, rev (tail # rhead)) w1 = (r, w')"
      by (auto split: sum.splits if_splits)
    then show ?thesis
    proof
      assume "(r, w') = (Inl (projl r1), w1)"
      with g1 show ?thesis by simp
    next
      assume "mkdir_leaf env ok (a, rev (tail # rhead)) w1 = (r, w')"
      from mkdir_leaf_cases [OF this] g1 show ?thesis by (blast intro: grows_trans)
    qed
  next
    case False
    with Cons.prems have "mkdir_leaf env ok (a, rev (tail # rhead)) w = (r, w')"
      by (auto split: if_splits)
    from mkdir_leaf_cases [OF this] show ?thesis by blast
  qed
qed


subsection \<open>makedirs on a path\<close>


lemma makedirs_grows:
  "makedirs env name ok w = (r, w') \<Longrightarrow> grows (logged (Makedirs name ok) w) w'"
  by (auto simp: makedirs_def split: option.splits dest: makedirs_at_grows)




lemma dirs_exist_frame [simp]: "dirs_exist (w\<lparr>calls := cs\<rparr>) a rcs = dirs_exist w a rcs"
  by (induction rcs) simp_all


subsection \<open>Creating what is missing\<close>




subsection \<open>Saving and printing\<close>

lemma save_cases:
  assumes "save env img f fmt w = (r, w')"
  shows "(\<exists>q. r = Inr () \<and> resolve f = Some q \<and> snd q \<noteq> []
            \<and> node_at w (fst q, butlast (snd q)) = Some Dir \<and> node_at w q \<noteq> Some Dir
            \<and> write_error env q = None
            \<and> w' = w\<lparr>calls := calls w @ [Save f fmt],
                      nodes := (nodes w)(q \<mapsto> File (Encoded fmt img))\<rparr>)
         \<or> (\<exists>e. r = Inl e \<and> w' = logged (Save f fmt) w)"
  using assms
  by (auto simp: save_def Let_def logged_def split: option.splits if_splits node.splits)

lemma save_fails_whatever_image:
  "save env img f fmt w = (Inl e, w') \<Longrightarrow> save env img' f fmt w = (Inl e, w')"
  by (auto simp: save_def Let_def split: option.splits if_splits node.splits)

subsection \<open>The canvas\<close>

lemma paint_frame:
  "mode (paint env t d ft fd img) = mode img"
  "img_size (paint env t d ft fd img) = img_size img"
  "color (paint env t d ft fd img) = color img"
  by (simp_all add: paint_def Let_def draw_rectangle_def draw_text_def)

lemma canvas_frame:
  "mode (canvas env t d) = ''RGB''"
  "img_size (canvas env t d) = (1200, 800)"
  "color (canvas env t d) = ''#f8fafc''"
  by (simp_all add: canvas_def paint_frame Image_new_def WIDTH_def HEIGHT_def)

subsection \<open>The generator, step by step\<close>

lemma create_placeholder_image_eq:
  "create_placeholder_image env title description filename w =
     (case makedirs env (dirname filename) True (snd (load_fonts env w)) of
        (Inl e, w2) \<Rightarrow> (Inl e, w2)
      | (Inr u, w2) \<Rightarrow>
          (case save env (canvas env title description) filename ''PNG'' w2 of
             (Inl e, w3) \<Rightarrow> (Inl e, w3)
           | (Inr u, w3) \<Rightarrow> print (confirmation filename) w3))"
  by (simp add: create_placeholder_image_def bind_def load_fonts_eq canvas_def
      split: prod.splits sum.splits)

text \<open>What a call of the generator leaves behind, whether it returns or raises.\<close>

lemma create_placeholder_image_cases:
  assumes "create_placeholder_image env title description filename w = (r, w')"
  shows "\<exists>w1. grows (w\<lparr>calls := calls w @ snd (three_tiers env) @ [Makedirs (dirname filename) True]\<rparr>) w1 \<and>
     ((\<exists>e. r = Inl e \<and> w' = w1
           \<and> makedirs env (dirname filename) True (snd (load_fonts env w)) = (Inl e, w1))
      \<or> (\<exists>e. r = Inl e \<and> w' = logged (Save filename ''PNG'') w1
           \<and> makedirs env (dirname filename) True (snd (load_fonts env w)) = (Inr (), w1)
           \<and> save env (canvas env title description) filename ''PNG'' w1 = (Inl e, w'))
      \<or> (\<exists>q. r = Inr () \<and> resolve filename = Some q \<and> snd q \<noteq> []
           \<and> node_at w1 q \<noteq> Some Dir
           \<and> makedirs env (dirname filename) True (snd (load_fonts env w)) = (Inr (), w1)
           \<and> w' = w1\<lparr>calls := calls w1 @ [Save filename ''PNG''],
                      nodes := (nodes w1)(q \<mapsto> File (Encoded ''PNG'' (canvas env title description))),
                      stdout := stdout w1 @ [confirmation filename]\<rparr>))"
proof -
  obtain r1 w1 where mk: "makedirs env (dirname filename) True (snd (load_fonts env w)) = (r1, w1)"
    by force
  from makedirs_grows [OF mk]
  have g: "grows (w\<lparr>calls := calls w @ snd (three_tiers env) @ [Makedirs (dirname filename) True]\<rparr>) w1"
    by (simp add: load_fonts_eq logged_def)
  show ?thesis
  proof (cases r1)
    case (Inl e)
    with assms mk g show ?thesis by (auto simp: create_placeholder_image_eq)
  next
    case (Inr u)
    obtain r2 w2 where sv: "save env (canvas env title description) filename ''PNG'' w1 = (r2, w2)"
      by force
    from save_cases [OF sv] assms mk Inr sv g show ?thesis
      by (auto simp: create_placeholder_image_eq print_def)
  qed
qed

section \<open>The claims\<close>

lemma new_calls_append: "new_calls w (w'\<lparr>calls := calls w @ cs\<rparr>) = cs"
  by (simp add: new_calls_def)







text \<open>
  C10. The two \<open>except:\<close> clauses are bare. Whatever exception \<open>e\<close> the first
  tier raises, at either of its two loads, the second tier is attempted; whatever
  exception \<open>e'\<close> the second tier raises, the built-in font is loaded and used.
  Neither exception has to be a resource-not-found condition.
\<close>

theorem bare_except_advances_on_any_exception:
  "((font_error env helvetica (FONT_SIZE + 8) = Some e \<or>
     (font_error env helvetica (FONT_SIZE + 8) = None \<and>
      font_error env helvetica (FONT_SIZE - 4) = Some e)) \<longrightarrow>
    Truetype arial (FONT_SIZE + 8) \<in> set (new_calls w (snd (load_fonts env w))) \<and>
    fst (load_fonts env w) =
      (if loads env arial then Inr (FreeTypeFont arial (FONT_SIZE + 8), FreeTypeFont arial (FONT_SIZE - 4))
       else Inr (DefaultFont, DefaultFont))) \<and>
   (\<not> loads env helvetica \<and>
    (font_error env arial (FONT_SIZE + 8) = Some e' \<or>
     (font_error env arial (FONT_SIZE + 8) = None \<and>
      font_error env arial (FONT_SIZE - 4) = Some e')) \<longrightarrow>
    Load_default \<in> set (new_calls w (snd (load_fonts env w))) \<and>
    fst (load_fonts env w) = Inr (DefaultFont, DefaultFont))"
  by (auto simp: load_fonts_eq new_calls_append three_tiers_def loads_def attempts_def)

theorem bare_except_advances_on_any_exception_witness:
  "font_error odd_fonts helvetica (FONT_SIZE + 8) = Some KeyboardInterrupt \<and>
   font_error odd_fonts arial (FONT_SIZE + 8) = Some ValueError \<and>
   Truetype arial (FONT_SIZE + 8) \<in> set (new_calls empty_world (snd (load_fonts odd_fonts empty_world))) \<and>
   Load_default \<in> set (new_calls empty_world (snd (load_fonts odd_fonts empty_world))) \<and>
   fst (load_fonts odd_fonts empty_world) = Inr (DefaultFont, DefaultFont)"
proof -
  have h: "font_error odd_fonts helvetica (FONT_SIZE + 8) = Some KeyboardInterrupt"
    and a: "font_error odd_fonts arial (FONT_SIZE + 8) = Some ValueError"
    and l: "\<not> loads odd_fonts helvetica" "\<not> loads odd_fonts arial"
    by (simp_all add: odd_fonts_def no_fonts_def loads_def helvetica_def arial_def)
  from bare_except_advances_on_any_exception
    [of odd_fonts KeyboardInterrupt empty_world ValueError] h a l
  show ?thesis by simp
qed

subsection \<open>Centering\<close>

lemma text_width_getbbox:
  "text_width env s f = (case getbbox env f s of (l, t, r, b) \<Rightarrow> r - l)"
  by (simp add: text_width_def draw_textbbox_def split: prod.splits)

lemma canvas_drawn:
  "drawn (canvas env title description) =
     (let font_title = fst (fst (three_tiers env)); font_desc = snd (fst (three_tiers env)) in
      [Rectangle [0, 0, 1200, 100] (Some ''#3b82f6'') None 1,
       Text (centered_x env title font_title, 30) title ''white'' font_title,
       Text (centered_x env description font_desc, 200) description ''#1f2937'' font_desc,
       Rectangle [50, 150, 1150, 180] None (Some ''#e5e7eb'') 2,
       Rectangle [100, 250, 1100, 700] None (Some ''#e5e7eb'') 2,
       Rectangle [120, 270, 250, 310] (Some ''#ef4444'') None 1,
       Text (135, 285) ''Action'' ''white'' font_desc,
       Text (120, 350) ''Interface ClockPilot'' ''#1f2937'' font_desc,
       Text (120, 380) ''Gestion des temps et planning'' ''#6b7280'' font_desc,
       Text (50, 750) footer ''#9ca3af'' font_desc])"
  by (simp add: canvas_def paint_def Let_def draw_rectangle_def draw_text_def Image_new_def
      WIDTH_def HEIGHT_def)

text \<open>
  C2, as stated, fails: the offset is half of what the text leaves of the canvas, and a
  text wider than the canvas leaves a negative rest. On the machine without font
  files a title of 400 characters is 2400 pixels wide and is drawn at x = -600.
\<close>

theorem centered_text_off_canvas_counterexample:
  "text_width no_fonts long_title DefaultFont = 2400 \<and>
   centered_x no_fonts long_title DefaultFont = - 600 \<and>
   \<not> (0 \<le> centered_x no_fonts long_title DefaultFont) \<and>
   \<not> (centered_x no_fonts long_title DefaultFont + text_width no_fonts long_title DefaultFont
        \<le> WIDTH) \<and>
   Text (- 600, 30) long_title ''white'' DefaultFont
     \<in> set (drawn (canvas no_fonts long_title ''Page''))"
  by (simp add: canvas_drawn centered_x_def text_width_getbbox no_fonts_def long_title_def
      WIDTH_def three_tiers_def loads_def)

text \<open>
  C2, amended. The canvas is 1200 wide, and the title and the description are drawn
  at \<open>(1200 - width) // 2\<close> with the fonts of the chain. That offset is at least 0
  and the text ends at or before the right edge exactly when the rendered width is at
  most the canvas width.
\<close>

theorem centered_text_on_canvas:
  "WIDTH = 1200 \<and>
   ((0 \<le> centered_x env s f \<and> centered_x env s f + text_width env s f \<le> WIDTH)
      \<longleftrightarrow> text_width env s f \<le> WIDTH) \<and>
   Text (centered_x env title (fst (fst (three_tiers env))), 30) title ''white''
       (fst (fst (three_tiers env)))
     \<in> set (drawn (canvas env title description)) \<and>
   Text (centered_x env description (snd (fst (three_tiers env))), 200) description ''#1f2937''
       (snd (fst (three_tiers env)))
     \<in> set (drawn (canvas env title description))"
proof -
  have "(0 \<le> (WIDTH - x) div 2 \<and> (WIDTH - x) div 2 + x \<le> WIDTH) \<longleftrightarrow> x \<le> WIDTH" for x :: int
    unfolding WIDTH_def by presburger
  then show ?thesis
    by (simp add: centered_x_def canvas_drawn Let_def WIDTH_def)
qed

theorem centered_text_on_canvas_witness:
  "text_width no_fonts ''Page de Connexion'' DefaultFont = 102 \<and>
   centered_x no_fonts ''Page de Connexion'' DefaultFont = 549 \<and>
   0 \<le> centered_x no_fonts ''Page de Connexion'' DefaultFont \<and>
   centered_x no_fonts ''Page de Connexion'' DefaultFont
     + text_width no_fonts ''Page de Connexion'' DefaultFont \<le> WIDTH"
proof -
  have w: "text_width no_fonts ''Page de Connexion'' DefaultFont = 102"
    by (simp add: text_width_getbbox no_fonts_def)
  then have "text_width no_fonts ''Page de Connexion'' DefaultFont \<le> WIDTH"
    by (simp add: WIDTH_def)
  with centered_text_on_canvas [of no_fonts "''Page de Connexion''" DefaultFont] w
  show ?thesis by (simp add: centered_x_def WIDTH_def)
qed

subsection \<open>Paths without a separator\<close>






subsection \<open>The directory of the output path\<close>

lemma clear_above_frame [simp]: "clear_above (w\<lparr>calls := cs\<rparr>) a rcs = clear_above w a rcs"
  by (induction rcs) simp_all







subsection \<open>One call of the generator\<close>

lemma create_placeholder_image_returns:
  assumes "create_placeholder_image env title description filename w = (Inr u, w')"
  shows "stdout w' = stdout w @ [confirmation filename]"
    and "calls w' = calls w @ run_calls env filename"
    and "file_at w' filename = Some (Encoded ''PNG'' (canvas env title description))"
  using create_placeholder_image_cases [OF assms]
  by (auto simp: grows_def run_calls_def file_at_def node_at_def)

lemma create_placeholder_image_raises:
  assumes "create_placeholder_image env title description filename w = (Inl e, w')"
  shows "stdout w' = stdout w"
    and "calls w' = calls w @ snd (three_tiers env) @ [Makedirs (dirname filename) True] \<or>
         calls w' = calls w @ run_calls env filename"
  using create_placeholder_image_cases [OF assms]
  by (auto simp: grows_def run_calls_def logged_def)

lemma io_failure_propagates:
  assumes "makedirs env (dirname filename) True (snd (load_fonts env w)) = (Inl e, w2) \<or>
      (\<exists>w1. makedirs env (dirname filename) True (snd (load_fonts env w)) = (Inr (), w1) \<and>
            save env img filename ''PNG'' w1 = (Inl e, w2))"
  shows "create_placeholder_image env title description filename w = (Inl e, w2)"
  using assms
  by (auto simp: create_placeholder_image_eq
      dest: save_fails_whatever_image [where img' = "canvas env title description"])

subsection \<open>The loop\<close>

lemma for_images_append:
  "for_images env (xs @ ys) w =
     (case for_images env xs w of
        (Inl e, w1) \<Rightarrow> (Inl e, w1)
      | (Inr u, w1) \<Rightarrow> for_images env ys w1)"
  by (induction xs arbitrary: w) (auto split: prod.splits sum.splits)

lemma for_images_returns:
  "for_images env imgs w = (Inr u, w') \<Longrightarrow>
     stdout w' = stdout w @ map (confirmation \<circ> fst) imgs \<and>
     calls w' = calls w @ concat (map (run_calls env \<circ> fst) imgs)"
proof (induction imgs arbitrary: w)
  case Nil
  then show ?case by simp
next
  case (Cons x rest)
  obtain f t d where x: "x = (f, t, d)" by (cases x)
  from Cons.prems x obtain w1 where
    one: "create_placeholder_image env t d f w = (Inr (), w1)"
    and more: "for_images env rest w1 = (Inr u, w')"
    by (auto split: prod.splits sum.splits)
  from Cons.IH [OF more] create_placeholder_image_returns(1,2) [OF one] x
  show ?case by simp
qed



subsection \<open>The batch driver\<close>

lemma create_all_placeholders_eq:
  "create_all_placeholders env w =
     (case for_images env images (snd (print start_banner w)) of
        (Inl e, w1) \<Rightarrow> (Inl e, w1)
      | (Inr u, w1) \<Rightarrow> print end_banner w1)"
  by (simp add: create_all_placeholders_def bind_def print_def split: prod.splits sum.splits)

text \<open>
  C8. Nothing catches a failure of the directory creation or of the save. Let the loop
  have run the entries \<open>pre\<close>, and let \<open>makedirs\<close> or the save raise \<open>e\<close> for the
  next entry. Then the generator raises \<open>e\<close>, and so does the batch driver, in the
  very state the failing call left: the output holds the start banner and the
  confirmations of \<open>pre\<close> only (none for the failing entry or a later one, and no
  completion banner), and the log ends with the failing entry's calls.
\<close>

theorem io_failure_aborts_batch:
  "images = pre @ (filename, title, description) # post \<and>
   for_images env pre (snd (print start_banner w)) = (Inr (), w1) \<and>
   (makedirs env (dirname filename) True (snd (load_fonts env w1)) = (Inl e, w2) \<or>
    (\<exists>w'. makedirs env (dirname filename) True (snd (load_fonts env w1)) = (Inr (), w') \<and>
          save env img filename ''PNG'' w' = (Inl e, w2)))
   \<longrightarrow>
   create_placeholder_image env title description filename w1 = (Inl e, w2) \<and>
   create_all_placeholders env w = (Inl e, w2) \<and>
   stdout w2 = stdout w @ [start_banner] @ map (confirmation \<circ> fst) pre \<and>
   (new_calls w w2 = concat (map (run_calls env \<circ> fst) pre) @ snd (three_tiers env)
                       @ [Makedirs (dirname filename) True] \<or>
    new_calls w w2 = concat (map (run_calls env \<circ> fst) pre) @ run_calls env filename)"
proof (intro impI, elim conjE)
  assume split: "images = pre @ (filename, title, description) # post"
    and before: "for_images env pre (snd (print start_banner w)) = (Inr (), w1)"
    and fails: "makedirs env (dirname filename) True (snd (load_fonts env w1)) = (Inl e, w2) \<or>
      (\<exists>w'. makedirs env (dirname filename) True (snd (load_fonts env w1)) = (Inr (), w') \<and>
            save env img filename ''PNG'' w' = (Inl e, w2))"
  from fails have one: "create_placeholder_image env title description filename w1 = (Inl e, w2)"
    by (rule io_failure_propagates)
  with before
  have "for_images env (pre @ (filename, title, description) # post)
      (snd (print start_banner w)) = (Inl e, w2)"
    by (simp add: for_images_append)
  with split
  have loop: "for_images env images (snd (print start_banner w)) = (Inl e, w2)"
    by simp
  then have all: "create_all_placeholders env w = (Inl e, w2)"
    by (simp add: create_all_placeholders_eq)
  from for_images_returns [OF before]
  have w1: "stdout w1 = stdout w @ [start_banner] @ map (confirmation \<circ> fst) pre"
    "calls w1 = calls w @ concat (map (run_calls env \<circ> fst) pre)"
    by (simp_all add: print_def)
  from create_placeholder_image_raises [OF one] w1
  have "stdout w2 = stdout w @ [start_banner] @ map (confirmation \<circ> fst) pre"
    and "new_calls w w2 = concat (map (run_calls env \<circ> fst) pre) @ snd (three_tiers env)
                       @ [Makedirs (dirname filename) True] \<or>
       new_calls w w2 = concat (map (run_calls env \<circ> fst) pre) @ run_calls env filename"
    by (auto simp: new_calls_def)
  with one all show "create_placeholder_image env title description filename w1 = (Inl e, w2) \<and>
   create_all_placeholders env w = (Inl e, w2) \<and>
   stdout w2 = stdout w @ [start_banner] @ map (confirmation \<circ> fst) pre \<and>
   (new_calls w w2 = concat (map (run_calls env \<circ> fst) pre) @ snd (three_tiers env)
                       @ [Makedirs (dirname filename) True] \<or>
    new_calls w w2 = concat (map (run_calls env \<circ> fst) pre) @ run_calls env filename)"
    by simp
qed

lemma login_images_run:
  "fst (for_images read_only (take 3 images) (snd (print start_banner empty_world))) = Inr ()"
  by code_simp

lemma employee_directory_refused:
  "fst (makedirs read_only ''docs/screenshots/employee'' True
         (snd (load_fonts read_only
           (snd (for_images read_only (take 3 images) (snd (print start_banner empty_world)))))))
     = Inl PermissionError"
  by code_simp

theorem io_failure_aborts_batch_witness:
  "fst (create_all_placeholders read_only empty_world) = Inl PermissionError \<and>
   stdout (snd (create_all_placeholders read_only empty_world)) =
     [start_banner,
      confirmation ''docs/screenshots/login/login-page.png'',
      confirmation ''docs/screenshots/login/login-error.png'',
      confirmation ''docs/screenshots/login/login-success.png'']"
proof -
  let ?w0 = "snd (print start_banner empty_world)"
  let ?w1 = "snd (for_images read_only (take 3 images) ?w0)"
  let ?f = "''docs/screenshots/employee/dashboard.png''"
  let ?mk = "makedirs read_only (dirname ?f) True (snd (load_fonts read_only ?w1))"
  have split: "images = take 3 images @ (?f, fst (snd (images ! 3)), snd (snd (images ! 3)))
      # drop 4 images"
    by (simp add: images_def)
  have before: "for_images read_only (take 3 images) ?w0 = (Inr (), ?w1)"
    using login_images_run by (cases "for_images read_only (take 3 images) ?w0") simp
  have "dirname ?f = ''docs/screenshots/employee''" by code_simp
  with employee_directory_refused have fails: "?mk = (Inl PermissionError, snd ?mk)"
    by (cases ?mk) simp
  from io_failure_aborts_batch
    [of "take 3 images" ?f "fst (snd (images ! 3))" "snd (snd (images ! 3))" "drop 4 images"
        read_only empty_world ?w1 PermissionError "snd ?mk"]
    split before fails
  have "create_all_placeholders read_only empty_world = (Inl PermissionError, snd ?mk)"
    and "stdout (snd ?mk) = stdout empty_world @ [start_banner] @ map (confirmation \<circ> fst) (take 3 images)"
    by blast+
  then show ?thesis by (simp add: images_def empty_world_def)
qed





subsection \<open>What the files hold\<close>

lemma file_at_iff:
  "file_at w p = Some c \<longleftrightarrow>
     (\<exists>q. resolve p = Some q \<and> snd q \<noteq> [] \<and> nodes w q = Some (File c))"
  by (auto simp: file_at_def node_at_def split: option.splits node.splits)

lemma file_at_frame [simp]:
  "file_at (w\<lparr>calls := cs\<rparr>) p = file_at w p" "file_at (w\<lparr>stdout := out\<rparr>) p = file_at w p"
  by (simp_all add: file_at_def split: option.splits)

lemma grows_keeps:
  assumes "grows w w'" and "nodes w q = Some n"
  shows "nodes w' q = Some n"
proof -
  from assms(1) have "nodes w' q = nodes w q \<or> (nodes w q = None \<and> nodes w' q = Some Dir)"
    unfolding grows_def by blast
  with assms(2) show ?thesis by simp
qed

lemma file_at_grows: "grows w w' \<Longrightarrow> file_at w p = Some c \<Longrightarrow> file_at w' p = Some c"
  unfolding file_at_iff by (blast dest: grows_keeps)

lemma file_at_write:
  "snd q \<noteq> [] \<Longrightarrow>
   file_at (w\<lparr>nodes := (nodes w)(q \<mapsto> File c)\<rparr>) p =
     (if resolve p = Some q then Some c else file_at w p)"
  by (auto simp: file_at_def node_at_def split: option.splits)

lemma canvas_is_screenshot: "is_screenshot (Encoded ''PNG'' (canvas env t d))"
  by (simp add: canvas_frame)

lemma create_placeholder_image_keeps:
  assumes "create_placeholder_image env title description filename w = (r, w')"
    and "holds_screenshot w p"
  shows "holds_screenshot w' p"
proof -
  from assms(2) obtain c where c: "file_at w p = Some c" "is_screenshot c"
    by (auto simp: holds_screenshot_def split: option.splits)
  from create_placeholder_image_cases [OF assms(1)] obtain w1 where
    g: "grows (w\<lparr>calls := calls w @ snd (three_tiers env) @ [Makedirs (dirname filename) True]\<rparr>) w1"
    and w': "w' = w1 \<or> w' = logged (Save filename ''PNG'') w1 \<or>
      (\<exists>q. snd q \<noteq> [] \<and>
        w' = w1\<lparr>calls := calls w1 @ [Save filename ''PNG''],
                nodes := (nodes w1)(q \<mapsto> File (Encoded ''PNG'' (canvas env title description))),
                stdout := stdout w1 @ [confirmation filename]\<rparr>)"
    by blast
  from file_at_grows [OF g] c(1) have w1: "file_at w1 p = Some c" by simp
  from w' show ?thesis
  proof (elim disjE exE conjE)
    fix q
    assume "snd q \<noteq> []"
      and "w' = w1\<lparr>calls := calls w1 @ [Save filename ''PNG''],
                nodes := (nodes w1)(q \<mapsto> File (Encoded ''PNG'' (canvas env title description))),
                stdout := stdout w1 @ [confirmation filename]\<rparr>"
    then have "file_at w' p =
        (if resolve p = Some q then Some (Encoded ''PNG'' (canvas env title description))
         else file_at w1 p)"
      using file_at_write [of q "w1\<lparr>calls := calls w1 @ [Save filename ''PNG'']\<rparr>"] by simp
    with w1 c(2) canvas_is_screenshot [of env title description] show ?thesis
      by (simp add: holds_screenshot_def)
  qed (use w1 c(2) in \<open>simp_all add: holds_screenshot_def logged_def\<close>)
qed

lemma for_images_keeps:
  "for_images env imgs w = (r, w') \<Longrightarrow> holds_screenshot w p \<Longrightarrow> holds_screenshot w' p"
proof (induction imgs arbitrary: w)
  case Nil
  then show ?case by simp
next
  case (Cons x rest)
  obtain f t d where x: "x = (f, t, d)" by (cases x)
  obtain r1 w1 where one: "create_placeholder_image env t d f w = (r1, w1)" by force
  from create_placeholder_image_keeps [OF one Cons.prems(2)] have k: "holds_screenshot w1 p" .
  show ?case
  proof (cases r1)
    case (Inl e)
    with Cons.prems(1) x one k show ?thesis by simp
  next
    case (Inr u)
    with Cons.prems(1) x one have "for_images env rest w1 = (r, w')" by simp
    from Cons.IH [OF this k] show ?thesis .
  qed
qed

lemma for_images_screenshots:
  "for_images env imgs w = (Inr u, w') \<Longrightarrow> x \<in> set imgs \<Longrightarrow> holds_screenshot w' (fst x)"
proof (induction imgs arbitrary: w)
  case Nil
  then show ?case by simp
next
  case (Cons y rest)
  obtain f t d where y: "y = (f, t, d)" by (cases y)
  from Cons.prems(1) y obtain w1 where
    one: "create_placeholder_image env t d f w = (Inr (), w1)"
    and more: "for_images env rest w1 = (Inr u, w')"
    by (auto split: prod.splits sum.splits)
  show ?case
  proof (cases "x = y")
    case True
    from create_placeholder_image_returns(3) [OF one] have "holds_screenshot w1 f"
      by (simp add: holds_screenshot_def canvas_frame)
    from for_images_keeps [OF more this] True y show ?thesis by simp
  next
    case False
    with Cons.prems(2) have "x \<in> set rest" by simp
    from Cons.IH [OF more this] show ?thesis .
  qed
qed


text \<open>
  C4. The canvas is allocated as an RGB image of 1200 by 800 filled with
  \<open>#f8fafc\<close>. A call of the generator that returns has written, at the output path,
  the PNG encoding of the canvas it drew, which still is RGB, 1200 by 800, on that
  background. After a run of the batch driver that returns, every path of the list
  holds such a PNG.
\<close>

theorem every_output_is_a_1200x800_png:
  "Image_new ''RGB'' (WIDTH, HEIGHT) ''#f8fafc'' =
     \<lparr>mode = ''RGB'', img_size = (1200, 800), color = ''#f8fafc'', drawn = []\<rparr> \<and>
   (\<forall>u w'. create_placeholder_image env title description filename w = (Inr u, w') \<longrightarrow>
      file_at w' filename = Some (Encoded ''PNG'' (canvas env title description)) \<and>
      mode (canvas env title description) = ''RGB'' \<and>
      img_size (canvas env title description) = (1200, 800) \<and>
      color (canvas env title description) = ''#f8fafc'') \<and>
   (\<forall>u w'. create_all_placeholders env w = (Inr u, w') \<longrightarrow>
      (\<forall>x \<in> set images. \<exists>img.
         file_at w' (fst x) = Some (Encoded ''PNG'' img) \<and>
         mode img = ''RGB'' \<and> img_size img = (1200, 800) \<and> color img = ''#f8fafc''))"
proof (intro conjI allI impI ballI)
  show "Image_new ''RGB'' (WIDTH, HEIGHT) ''#f8fafc'' =
     \<lparr>mode = ''RGB'', img_size = (1200, 800), color = ''#f8fafc'', drawn = []\<rparr>"
    by (simp add: Image_new_def WIDTH_def HEIGHT_def)
next
  fix u w'
  assume "create_placeholder_image env title description filename w = (Inr u, w')"
  then show "file_at w' filename = Some (Encoded ''PNG'' (canvas env title description))"
    by (rule create_placeholder_image_returns(3))
next
  fix u w' x
  assume run: "create_all_placeholders env w = (Inr u, w')" and x: "x \<in> set images"
  from run obtain w1 where
    loop: "for_images env images (snd (print start_banner w)) = (Inr (), w1)"
    and w': "w' = snd (print end_banner w1)"
    by (auto simp: create_all_placeholders_eq split: prod.splits sum.splits)
  from for_images_screenshots [OF loop x] w' have "holds_screenshot w' (fst x)"
    by (simp add: holds_screenshot_def print_def)
  then obtain c where c: "file_at w' (fst x) = Some c" "is_screenshot c"
    by (auto simp: holds_screenshot_def split: option.splits)
  then show "\<exists>img. file_at w' (fst x) = Some (Encoded ''PNG'' img) \<and>
      mode img = ''RGB'' \<and> img_size img = (1200, 800) \<and> color img = ''#f8fafc''"
    by (cases c) simp_all
qed (simp_all add: canvas_frame)

lemma batch_completes: "fst (create_all_placeholders all_fonts empty_world) = Inr ()"
  by code_simp

theorem every_output_is_a_1200x800_png_witness:
  "\<exists>img. file_at (snd (create_all_placeholders all_fonts empty_world))
            ''docs/screenshots/admin/validation.png'' = Some (Encoded ''PNG'' img) \<and>
         mode img = ''RGB'' \<and> img_size img = (1200, 800) \<and> color img = ''#f8fafc''"
proof -
  let ?run = "create_all_placeholders all_fonts empty_world"
  have run: "?run = (Inr (), snd ?run)"
    using batch_completes by (cases ?run) simp
  have "(''docs/screenshots/admin/validation.png'', ''Validation des Heures'',
         ''Approuvez ou rejetez les heures saisies'') \<in> set images"
    by (simp add: images_def)
  then have mem: "(''docs/screenshots/admin/validation.png'', ''Validation des Heures'',
         ''Approuvez ou rejetez les heures saisies'') \<in> set images" .
  note all = every_output_is_a_1200x800_png [of all_fonts "''t''" "''d''" "''f''" empty_world]
  from all have "\<forall>u w'. ?run = (Inr u, w') \<longrightarrow>
      (\<forall>x \<in> set images. \<exists>img.
         file_at w' (fst x) = Some (Encoded ''PNG'' img) \<and>
         mode img = ''RGB'' \<and> img_size img = (1200, 800) \<and> color img = ''#f8fafc'')"
    by (elim conjE)
  from this [rule_format, OF run mem] show ?thesis by simp
qed

subsection \<open>What the output depends on\<close>







end
